theory Spec2Isabelle
  imports Complex_Main "HOL-Library.Sublist"
begin

section \<open>Text primitives of the Python runtime\<close>

text \<open>
  A contract text is a Python \<open>str\<close>. It is modelled as a \<open>string\<close> whose characters are
  the code points below 256; every pattern and every key of the program is ASCII.
  Weights and scores are Python floats; they are modelled as exact rationals. The catalog's
  weights are tenths that sum to 5.3, so every score the program computes is \<open>k / 53\<close>
  for a \<open>k\<close> from 0 to 53: none is within float rounding error of a threshold (0.4, 0.7)
  or of a rounding tie (an odd multiple of 0.005), and the rational result is the float one.
\<close>

definition code :: "char \<Rightarrow> nat" where
  "code c = of_char c"

text \<open>\<open>str.lower\<close>, character by character: A-Z and the upper-case letters of Latin-1.\<close>

definition lower_char :: "char \<Rightarrow> char" where
  "lower_char c =
     (if (65 \<le> code c \<and> code c \<le> 90) \<or> (192 \<le> code c \<and> code c \<le> 222 \<and> code c \<noteq> 215)
      then char_of (code c + 32) else c)"

definition lower :: "string \<Rightarrow> string" where
  "lower s = map lower_char s"

text \<open>\<open>str.isspace\<close> on one character: the whitespace that \<open>str.split()\<close> splits on.\<close>

definition isspace :: "char \<Rightarrow> bool" where
  "isspace c =
     ((9 \<le> code c \<and> code c \<le> 13) \<or> (28 \<le> code c \<and> code c \<le> 32) \<or> code c = 133 \<or> code c = 160)"

text \<open>
  \<open>str.split()\<close> with no argument: the maximal runs of non-whitespace characters.
  The first argument is the word being read.
\<close>

fun split_ws :: "string \<Rightarrow> string \<Rightarrow> string list" where
  "split_ws cur [] = (if cur = [] then [] else [cur])"
| "split_ws cur (c # cs) =
     (if isspace c then (if cur = [] then split_ws [] cs else cur # split_ws [] cs)
      else split_ws (cur @ [c]) cs)"

definition split :: "string \<Rightarrow> string list" where
  "split s = split_ws [] s"

text \<open>\<open>str.replace\<close> of one character by another, and \<open>str.title\<close> on ASCII text (it is
  only applied to the keys of the category table).\<close>

definition replace_char :: "char \<Rightarrow> char \<Rightarrow> string \<Rightarrow> string" where
  "replace_char old new s = map (\<lambda>c. if c = old then new else c) s"

definition is_upper :: "char \<Rightarrow> bool" where
  "is_upper c = (65 \<le> code c \<and> code c \<le> 90)"

definition is_lower :: "char \<Rightarrow> bool" where
  "is_lower c = (97 \<le> code c \<and> code c \<le> 122)"

definition upper_char :: "char \<Rightarrow> char" where
  "upper_char c = (if is_lower c then char_of (code c - 32) else c)"

fun title_from :: "bool \<Rightarrow> string \<Rightarrow> string" where
  "title_from previous_is_cased [] = []"
| "title_from previous_is_cased (c # cs) =
     (if is_upper c \<or> is_lower c
      then (if previous_is_cased then lower_char c else upper_char c) # title_from True cs
      else c # title_from False cs)"

definition title :: "string \<Rightarrow> string" where
  "title s = title_from False s"

section \<open>Regular expressions: the fragment the program's patterns use\<close>

text \<open>
  The patterns are sequences of single-character atoms (a literal, \<open>.\<close>, a class such as
  \<open>[\d,]\<close>), each optionally followed by \<open>?\<close>, \<open>*\<close> or \<open>+\<close>. \<open>.\<close> matches any character but
  a newline. \<open>re.search\<close> is used for its truth value only, so the matcher returns whether a
  match exists; it tries the alternatives in the order of Python's backtracking matcher.
\<close>

datatype atom = Lit char | AnyChar | OneOf "char list"

datatype item = One atom | Opt atom | Star atom | Plus atom

type_synonym pattern = "item list"

fun atom_ok :: "atom \<Rightarrow> char \<Rightarrow> bool" where
  "atom_ok (Lit x) c = (c = x)"
| "atom_ok AnyChar c = (c \<noteq> CHR 0x0A)"
| "atom_ok (OneOf xs) c = (c \<in> set xs)"

fun match_here :: "pattern \<Rightarrow> string \<Rightarrow> bool" where
  "match_here [] s = True"
| "match_here (One a # r) [] = False"
| "match_here (One a # r) (c # cs) = (if atom_ok a c then match_here r cs else False)"
| "match_here (Opt a # r) [] = match_here r []"
| "match_here (Opt a # r) (c # cs) =
     (if (if atom_ok a c then match_here r cs else False) then True else match_here r (c # cs))"
| "match_here (Star a # r) [] = match_here r []"
| "match_here (Star a # r) (c # cs) =
     (if (if atom_ok a c then match_here (Star a # r) cs else False) then True
      else match_here r (c # cs))"
| "match_here (Plus a # r) [] = False"
| "match_here (Plus a # r) (c # cs) =
     (if atom_ok a c then match_here (Star a # r) cs else False)"

text \<open>\<open>re.search(pattern, s)\<close> as a truth value: a match starting at some position of \<open>s\<close>.\<close>

fun re_search :: "pattern \<Rightarrow> string \<Rightarrow> bool" where
  "re_search p [] = match_here p []"
| "re_search p (c # cs) = (if match_here p (c # cs) then True else re_search p cs)"

text \<open>Pattern building blocks: a literal word, \<open>.*\<close>, \<open>.?\<close> and the class \<open>[\d,]\<close>.\<close>

definition lit :: "string \<Rightarrow> pattern" where
  "lit w = map (\<lambda>c. One (Lit c)) w"

definition dot_star :: pattern where
  "dot_star = [Star AnyChar]"

definition dot_opt :: pattern where
  "dot_opt = [Opt AnyChar]"

definition digits :: "char list" where
  "digits = ''0123456789''"

section \<open>The rule catalog\<close>

record rule =
  patterns :: "pattern list"
  severity :: string
  weight :: rat
  description :: string
  recommendation :: string

text \<open>\<open>_load_risk_rules\<close>: the dictionary literal, in insertion order. A pattern such
  as \<open>liability.*limit\<close> is the literal \<open>liability\<close>, then \<open>.*\<close>, then the literal
  \<open>limit\<close>; \<open>non.?disclos\<close> has \<open>.?\<close> in the middle; the first pattern of
  \<open>vague_payment_terms\<close> is a dollar sign followed by one or more digits or commas.\<close>

definition load_risk_rules :: "(string \<times> rule) list" where
  "load_risk_rules =
   [(''missing_liability_cap'',
     \<lparr>patterns = [lit ''liability'' @ dot_star @ lit ''limit'',
                  lit ''limitation'' @ dot_star @ lit ''liability'',
                  lit ''cap'' @ dot_star @ lit ''damages''],
      severity = ''HIGH'', weight = 9 / 10,
      description = ''Missing or inadequate liability limitations'',
      recommendation = ''Add clear liability limitation clauses to cap financial exposure''\<rparr>),
    (''missing_termination'',
     \<lparr>patterns = [lit ''terminat'',
                  lit ''end'' @ dot_star @ lit ''agreement'',
                  lit ''expir'',
                  lit ''cancel''],
      severity = ''HIGH'', weight = 8 / 10,
      description = ''Missing or unclear termination provisions'',
      recommendation = ''Include clear termination procedures and notice requirements''\<rparr>),
    (''missing_governing_law'',
     \<lparr>patterns = [lit ''governing'' @ dot_star @ lit ''law'',
                  lit ''governed'' @ dot_star @ lit ''by'',
                  lit ''jurisdiction'',
                  lit ''applicable'' @ dot_star @ lit ''law''],
      severity = ''MEDIUM'', weight = 7 / 10,
      description = ''Missing governing law and jurisdiction clauses'',
      recommendation = ''Specify governing law and jurisdiction for dispute resolution''\<rparr>),
    (''missing_confidentiality'',
     \<lparr>patterns = [lit ''confidential'',
                  lit ''proprietary'',
                  lit ''non'' @ dot_opt @ lit ''disclos'',
                  lit ''trade'' @ dot_star @ lit ''secret''],
      severity = ''MEDIUM'', weight = 6 / 10,
      description = ''Missing confidentiality and non-disclosure provisions'',
      recommendation = ''Add confidentiality clauses to protect sensitive information''\<rparr>),
    (''vague_payment_terms'',
     \<lparr>patterns = [[One (Lit (CHR ''$'')), Plus (OneOf (digits @ '',''))],
                  lit ''payment'' @ dot_star @ lit ''schedule'',
                  lit ''compensation'',
                  lit ''fee''],
      severity = ''MEDIUM'', weight = 5 / 10,
      description = ''Vague or missing payment terms'',
      recommendation = ''Specify clear payment amounts, schedules, and procedures''\<rparr>),
    (''missing_late_fees'',
     \<lparr>patterns = [lit ''late'' @ dot_star @ lit ''fee'',
                  lit ''interest'' @ dot_star @ lit ''overdue'',
                  lit ''penalty'' @ dot_star @ lit ''late''],
      severity = ''LOW'', weight = 3 / 10,
      description = ''Missing late payment penalties'',
      recommendation = ''Consider adding late payment fees and interest charges''\<rparr>),
    (''missing_ip_clauses'',
     \<lparr>patterns = [lit ''intellectual'' @ dot_star @ lit ''property'',
                  lit ''copyright'',
                  lit ''trademark'',
                  lit ''patent'',
                  lit ''work'' @ dot_star @ lit ''product''],
      severity = ''MEDIUM'', weight = 6 / 10,
      description = ''Missing intellectual property provisions'',
      recommendation = ''Clarify ownership and rights to intellectual property created''\<rparr>),
    (''missing_force_majeure'',
     \<lparr>patterns = [lit ''force'' @ dot_star @ lit ''majeure'',
                  lit ''act'' @ dot_star @ lit ''god'',
                  lit ''unforeseeable'',
                  lit ''beyond'' @ dot_star @ lit ''control''],
      severity = ''LOW'', weight = 4 / 10,
      description = ''Missing force majeure provisions'',
      recommendation = ''Consider adding force majeure clauses for unforeseen circumstances''\<rparr>),
    (''missing_amendment_clause'',
     \<lparr>patterns = [lit ''amendment'',
                  lit ''modif'',
                  lit ''chang'' @ dot_star @ lit ''agreement'',
                  lit ''written'' @ dot_star @ lit ''consent''],
      severity = ''LOW'', weight = 3 / 10,
      description = ''Missing amendment and modification procedures'',
      recommendation = ''Specify how the agreement can be amended or modified''\<rparr>),
    (''missing_severability'',
     \<lparr>patterns = [lit ''severab'',
                  lit ''invalid'' @ dot_star @ lit ''provision'',
                  lit ''unenforceable''],
      severity = ''LOW'', weight = 2 / 10,
      description = ''Missing severability clause'',
      recommendation = ''Add severability clause to preserve agreement if one provision is invalid''\<rparr>)]"

section \<open>Rule-based analysis\<close>

text \<open>A finding, the dictionary \<open>risk\<close> built in \<open>analyze_contract_rules\<close>.\<close>

record risk =
  risk_id :: string
  severity :: string
  weight :: rat
  description :: string
  recommendation :: string
  category :: string

text \<open>\<open>_categorize_risk\<close>: the first category of the table, in insertion order, whose list
  holds the key; \<open>General\<close> when none does.\<close>

definition categories :: "(string \<times> string list) list" where
  "categories =
   [(''liability'', [''missing_liability_cap'', ''vague_payment_terms'']),
    (''termination'', [''missing_termination'']),
    (''legal'', [''missing_governing_law'', ''missing_amendment_clause'', ''missing_severability'']),
    (''confidentiality'', [''missing_confidentiality'']),
    (''financial'', [''vague_payment_terms'', ''missing_late_fees'']),
    (''intellectual_property'', [''missing_ip_clauses'']),
    (''operational'', [''missing_force_majeure''])]"

fun categorize_in :: "(string \<times> string list) list \<Rightarrow> string \<Rightarrow> string" where
  "categorize_in [] rid = ''General''"
| "categorize_in ((cat, risks) # rest) rid =
     (if rid \<in> set risks then title (replace_char (CHR ''_'') (CHR '' '') cat)
      else categorize_in rest rid)"

definition categorize_risk :: "string \<Rightarrow> string" where
  "categorize_risk rid = categorize_in categories rid"

text \<open>The inner loop: the patterns of a rule that match the lower-cased text.\<close>

definition patterns_found :: "rule \<Rightarrow> string \<Rightarrow> pattern list" where
  "patterns_found r contract_lower = filter (\<lambda>p. re_search p contract_lower) (patterns r)"

definition make_risk :: "string \<Rightarrow> rule \<Rightarrow> risk" where
  "make_risk rid r =
     \<lparr>risk_id = rid, severity = rule.severity r, weight = rule.weight r,
      description = rule.description r, recommendation = rule.recommendation r,
      category = categorize_risk rid\<rparr>"

text \<open>The outer loop over \<open>self.risk_rules.items()\<close>, carrying \<open>risks_identified\<close> and
  \<open>total_risk_score\<close>.\<close>

fun scan_rules :: "(string \<times> rule) list \<Rightarrow> string \<Rightarrow> risk list \<times> rat \<Rightarrow> risk list \<times> rat" where
  "scan_rules [] contract_lower acc = acc"
| "scan_rules ((rid, r) # rest) contract_lower (risks_identified, total_risk_score) =
     (if patterns_found r contract_lower = []
      then scan_rules rest contract_lower
             (risks_identified @ [make_risk rid r], total_risk_score + rule.weight r)
      else scan_rules rest contract_lower (risks_identified, total_risk_score))"

text \<open>
  In the spec's words: a rule is missing from a text when none of its patterns matches the
  normalised text, and the score divides the total weight of the missing rules by the
  total weight of all rules. These two definitions follow that wording; the loop above is
  compared with them below.
\<close>

definition rule_missing :: "string \<Rightarrow> string \<times> rule \<Rightarrow> bool" where
  "rule_missing contract_lower = (\<lambda>(rid, r). \<forall>p \<in> set (patterns r). \<not> re_search p contract_lower)"

definition total_weight_of_missing_rules :: "(string \<times> rule) list \<Rightarrow> string \<Rightarrow> rat" where
  "total_weight_of_missing_rules rules contract_text =
     sum_list (map (\<lambda>(rid, r). rule.weight r) (filter (rule_missing (lower contract_text)) rules))"

text \<open>\<open>_group_risks_by_severity\<close>: a dictionary with the three keys, in insertion order; a
  risk whose severity is not a key is dropped.\<close>

definition append_to :: "string \<Rightarrow> risk \<Rightarrow> (string \<times> risk list) list \<Rightarrow> (string \<times> risk list) list" where
  "append_to sev x grouped = map (\<lambda>(k, v). if k = sev then (k, v @ [x]) else (k, v)) grouped"

fun group_loop :: "risk list \<Rightarrow> (string \<times> risk list) list \<Rightarrow> (string \<times> risk list) list" where
  "group_loop [] grouped = grouped"
| "group_loop (x # xs) grouped =
     (if risk.severity x \<in> set (map fst grouped)
      then group_loop xs (append_to (risk.severity x) x grouped)
      else group_loop xs grouped)"

definition group_risks_by_severity :: "risk list \<Rightarrow> (string \<times> risk list) list" where
  "group_risks_by_severity risks = group_loop risks [(''HIGH'', []), (''MEDIUM'', []), (''LOW'', [])]"

text \<open>Python's \<open>round(x, 2)\<close>: to the nearest hundredth, a tie to the even one.\<close>

definition round2 :: "rat \<Rightarrow> rat" where
  "round2 x =
     (let y = x * 100; f = \<lfloor>y\<rfloor>; d = y - of_int f
      in of_int (if d < 1 / 2 then f else if 1 / 2 < d then f + 1
                 else if even f then f else f + 1) / 100)"

definition max_possible_risk :: "(string \<times> rule) list \<Rightarrow> rat" where
  "max_possible_risk rules = sum_list (map (\<lambda>(rid, r). rule.weight r) rules)"

definition normalized_risk_score :: "(string \<times> rule) list \<Rightarrow> string \<Rightarrow> rat" where
  "normalized_risk_score rules contract_text =
     (let total_risk_score = snd (scan_rules rules (lower contract_text) ([], 0))
      in if 0 < max_possible_risk rules
         then min (total_risk_score / max_possible_risk rules) 1 else 0)"

definition level_of :: "rat \<Rightarrow> string" where
  "level_of s = (if 7 / 10 \<le> s then ''HIGH'' else if 4 / 10 \<le> s then ''MEDIUM'' else ''LOW'')"

text \<open>The report. \<open>datetime.now().isoformat()\<close> is the reading of the clock, passed in.\<close>

type_synonym time = rat

record rule_report =
  success :: bool
  analysis_type :: string
  overall_risk_score :: rat
  risk_level :: string
  total_risks :: nat
  risks_by_severity :: "(string \<times> risk list) list"
  risks_identified :: "risk list"
  contract_length :: nat
  analysis_timestamp :: time

definition analyze_contract_rules :: "(string \<times> rule) list \<Rightarrow> time \<Rightarrow> string \<Rightarrow> rule_report" where
  "analyze_contract_rules rules now contract_text =
     (let found = fst (scan_rules rules (lower contract_text) ([], 0));
          score = normalized_risk_score rules contract_text
      in \<lparr>success = True,
          analysis_type = ''Rule-Based'',
          overall_risk_score = round2 score,
          risk_level = level_of score,
          total_risks = length found,
          risks_by_severity = group_risks_by_severity found,
          risks_identified = found,
          contract_length = length (split contract_text),
          analysis_timestamp = now\<rparr>)"

section \<open>Combining the analyses\<close>

text \<open>\<open>_extract_contract_statistics\<close>. \<open>re.findall(r'[.!?]+', text)\<close> finds the maximal
  runs of terminators; with \<open>re.MULTILINE\<close>, \<open>^\d+\.\<close> matches at most once per line, at
  its start.\<close>

fun count_runs :: "bool \<Rightarrow> string \<Rightarrow> nat" where
  "count_runs in_run [] = 0"
| "count_runs in_run (c # cs) =
     (if c \<in> set ''.!?'' then (if in_run then 0 else 1) + count_runs True cs
      else count_runs False cs)"

fun lines_from :: "string \<Rightarrow> string \<Rightarrow> string list" where
  "lines_from cur [] = [cur]"
| "lines_from cur (c # cs) =
     (if c = CHR 0x0A then cur # lines_from [] cs else lines_from (cur @ [c]) cs)"

definition section_pattern :: pattern where
  "section_pattern = [Plus (OneOf digits), One (Lit (CHR ''.''))]"

record contract_statistics =
  word_count :: nat
  character_count :: nat
  sentence_count :: nat
  section_count :: nat
  estimated_pages :: nat
  reading_time_minutes :: nat
  complexity_score :: nat

definition extract_contract_statistics :: "string \<Rightarrow> contract_statistics" where
  "extract_contract_statistics contract_text =
     (let words = split contract_text;
          sentences = count_runs False contract_text;
          sections = length (filter (match_here section_pattern) (lines_from [] contract_text))
      in \<lparr>word_count = length words,
          character_count = length contract_text,
          sentence_count = sentences,
          section_count = sections,
          estimated_pages = max 1 (length words div 250),
          reading_time_minutes = max 1 (length words div 200),
          complexity_score = min 10 (max 1 (length words div 200))\<rparr>)"

definition get_high_priority_recommendations :: "risk list \<Rightarrow> string list" where
  "get_high_priority_recommendations risks =
     map risk.recommendation (filter (\<lambda>r. risk.severity r = ''HIGH'') risks)"

definition get_medium_priority_recommendations :: "risk list \<Rightarrow> string list" where
  "get_medium_priority_recommendations risks =
     map risk.recommendation (filter (\<lambda>r. risk.severity r = ''MEDIUM'') risks)"

text \<open>The body of \<open>_get_low_priority_recommendations\<close> is its docstring alone, so the call
  returns Python's \<open>None\<close>, not a list.\<close>

definition get_low_priority_recommendations :: "risk list \<Rightarrow> string list option" where
  "get_low_priority_recommendations risks = None"

record overall_risk_assessment =
  risk_level :: string
  risk_score :: rat
  confidence :: string
  total_issues :: nat

record ai_analysis =
  detailed_analysis :: "string option"
  model_used :: string
  analysis_depth :: string

record rule_based_analysis =
  risks_identified :: "risk list"
  risks_by_severity :: "(string \<times> risk list) list"
  missing_clauses :: nat
  critical_gaps :: nat

record recommendations =
  immediate_actions :: "string list"
  medium_term_improvements :: "string list"
  long_term_considerations :: "string list option"

record analysis_metadata =
  analyzed_at :: time
  analysis_time :: string
  cost :: string
  model :: string

record combined_report =
  success :: bool
  analysis_type :: string
  overall_risk_assessment :: overall_risk_assessment
  ai_analysis :: ai_analysis
  rule_based_analysis :: rule_based_analysis
  contract_statistics :: contract_statistics
  recommendations :: recommendations
  analysis_metadata :: analysis_metadata

text \<open>\<open>_combine_analyses\<close>. The AI text is only stored; \<open>None\<close> stands for Python's
  \<open>None\<close>.\<close>

definition combine_analyses :: "string option \<Rightarrow> rule_report \<Rightarrow> string \<Rightarrow> time \<Rightarrow> combined_report" where
  "combine_analyses ai rule_analysis contract_text now =
     (let contract_stats = extract_contract_statistics contract_text
      in \<lparr>success = True,
          analysis_type = ''Comprehensive (AI + Rule-Based)'',
          overall_risk_assessment =
            \<lparr>risk_level = rule_report.risk_level rule_analysis,
             risk_score = overall_risk_score rule_analysis,
             confidence = ''High'',
             total_issues = total_risks rule_analysis\<rparr>,
          ai_analysis =
            \<lparr>detailed_analysis = ai,
             model_used = ''Google Gemini 1.5 Flash'',
             analysis_depth = ''Comprehensive''\<rparr>,
          rule_based_analysis =
            \<lparr>risks_identified = rule_report.risks_identified rule_analysis,
             risks_by_severity = rule_report.risks_by_severity rule_analysis,
             missing_clauses = length (rule_report.risks_identified rule_analysis),
             critical_gaps =
               length (filter (\<lambda>r. risk.severity r = ''HIGH'')
                         (rule_report.risks_identified rule_analysis))\<rparr>,
          contract_statistics = contract_stats,
          recommendations =
            \<lparr>immediate_actions =
               get_high_priority_recommendations (rule_report.risks_identified rule_analysis),
             medium_term_improvements =
               get_medium_priority_recommendations (rule_report.risks_identified rule_analysis),
             long_term_considerations =
               get_low_priority_recommendations (rule_report.risks_identified rule_analysis)\<rparr>,
          analysis_metadata =
            \<lparr>analyzed_at = now,
             analysis_time = ''< 30 seconds'',
             cost = ''$0.00 (Free Tier)'',
             model = ''Gemini 1.5 Flash + Rule Engine''\<rparr>\<rparr>)"

section \<open>The rate limiter\<close>

text \<open>
  Modelled from the spec: the class \<open>RateLimiter\<close> of \<open>utils.py\<close>, which is not among the
  sources. Its state is the ceiling, the window and the ordered timestamps of the admitted
  requests. The clock is simulated: suspending the caller for \<open>wait\<close> advances it by
  exactly \<open>wait\<close>.
\<close>

record rate_limiter_state =
  max_requests_per_window :: int
  window_duration :: time
  timestamps :: "time list"

datatype error = Error string

fun message :: "error \<Rightarrow> string" where
  "message (Error m) = m"

text \<open>Modelled from the spec: construction rejects a non-positive ceiling or window, and
  starts with no timestamp.\<close>

definition new_rate_limiter :: "int \<Rightarrow> time \<Rightarrow> error + rate_limiter_state" where
  "new_rate_limiter max_requests window =
     (if max_requests \<le> 0 \<or> window \<le> 0
      then Inl (Error ''invalid rate limiter configuration'')
      else Inr \<lparr>max_requests_per_window = max_requests, window_duration = window,
                timestamps = []\<rparr>)"

text \<open>Modelled from the spec: the callers' \<open>RateLimiter(max_requests_per_minute=15)\<close>; the
  window is fixed at 60 time units.\<close>

definition RateLimiter :: "int \<Rightarrow> error + rate_limiter_state" where
  "RateLimiter max_requests_per_minute = new_rate_limiter max_requests_per_minute 60"

text \<open>Modelled from the spec: step 1 of \<open>acquire()\<close>. A timestamp stays while its age is
  below the window: one whose age has reached the window has expired, as the spec's step 3
  says of the earliest one after the wait.\<close>

definition purge :: "rate_limiter_state \<Rightarrow> time \<Rightarrow> time list" where
  "purge L now = filter (\<lambda>t. now - t < window_duration L) (timestamps L)"

text \<open>
  Modelled from the spec: \<open>acquire()\<close> (the callers name it \<open>wait_if_needed\<close>), steps 1 to
  3 with the retry as recursion. The result is the limiter and the clock at the return.
  \<open>None\<close> is the state the spec excludes by construction: the ceiling is not positive and
  no timestamp is left to wait for.
\<close>

function acquire :: "rate_limiter_state \<Rightarrow> time \<Rightarrow> (rate_limiter_state \<times> time) option" where
  "acquire L now =
     (if int (length (purge L now)) < max_requests_per_window L
      then Some (L\<lparr>timestamps := purge L now @ [now]\<rparr>, now)
      else (case purge L now of
              [] \<Rightarrow> None
            | oldest # rest \<Rightarrow>
                acquire (L\<lparr>timestamps := purge L now\<rparr>)
                        (now + max 0 (window_duration L - (now - oldest)))))"
  by pat_completeness auto
termination
proof (relation "measure (\<lambda>(L, now). length (purge L now))")
  show "wf (measure (\<lambda>(L, now). length (purge L now)))"
    by simp
next
  fix L :: rate_limiter_state and now oldest :: time and rest :: "time list"
  assume kept: "purge L now = oldest # rest"
  let ?later = "now + max 0 (window_duration L - (now - oldest))"
  have expired: "\<not> ?later - oldest < window_duration L"
    by (simp add: max_def)
  have "length (purge (L\<lparr>timestamps := purge L now\<rparr>) ?later)
          = length (filter (\<lambda>t. ?later - t < window_duration L) rest)"
    using expired by (simp add: purge_def kept [unfolded purge_def])
  also have "\<dots> \<le> length rest"
    by (rule length_filter_le)
  also have "\<dots> < length (purge L now)"
    by (simp add: kept)
  finally show "((L\<lparr>timestamps := purge L now\<rparr>, ?later), (L, now))
                  \<in> measure (\<lambda>(L, now). length (purge L now))"
    by simp
qed

text \<open>The number of recorded timestamps inside the trailing window at an instant.\<close>

definition in_window :: "rate_limiter_state \<Rightarrow> time \<Rightarrow> nat" where
  "in_window L now = length (purge L now)"

section \<open>The process: objects, clock and the two caller paths\<close>

text \<open>
  \<open>RateLimiter\<close> objects live in a store, by address: an attribute \<open>self.rate_limiter\<close>
  holds an address, and two attributes share a limiter exactly when they hold the same one.
  The trace is a history of the process: which limiter admitted a caller, and each call
  sent to the external model.
\<close>

datatype event = Acquired nat | Outbound string

record process =
  heap :: "nat \<rightharpoonup> rate_limiter_state"
  next_ref :: nat
  clock :: time
  usage :: "string list"
  trace :: "event list"

definition initial_process :: process where
  "initial_process = \<lparr>heap = Map.empty, next_ref = 0, clock = 0, usage = [], trace = []\<rparr>"

text \<open>Creating an object stores it at a fresh address.\<close>

definition allocate :: "rate_limiter_state \<Rightarrow> process \<Rightarrow> nat \<times> process" where
  "allocate L p = (next_ref p, p\<lparr>heap := (heap p)(next_ref p \<mapsto> L), next_ref := next_ref p + 1\<rparr>)"

text \<open>\<open>self.rate_limiter.wait_if_needed()\<close> on the object at an address. \<open>None\<close>: the call
  does not return.\<close>

definition wait_if_needed :: "nat \<Rightarrow> process \<Rightarrow> process option" where
  "wait_if_needed ref p =
     (case heap p ref of
        None \<Rightarrow> None
      | Some L \<Rightarrow>
          (case acquire L (clock p) of
             None \<Rightarrow> None
           | Some (L', t) \<Rightarrow>
               Some (p\<lparr>heap := (heap p)(ref \<mapsto> L'), clock := t,
                       trace := trace p @ [Acquired ref]\<rparr>)))"

text \<open>Modelled from the spec: \<open>usage_tracker.track_request\<close> of \<open>utils.py\<close> counts the
  request.\<close>

definition track_request :: "string \<Rightarrow> process \<Rightarrow> process" where
  "track_request kind p = p\<lparr>usage := usage p @ [kind]\<rparr>"

text \<open>
  The external model is opaque: what \<open>self.model.generate_content(prompt)\<close> and
  \<open>response.text\<close> give (a text, or an exception) and how long the call takes are inputs.
\<close>

record external_call =
  took :: time
  reply :: "error + string"

definition generate_content :: "string \<Rightarrow> external_call \<Rightarrow> process \<Rightarrow> (error + string) \<times> process" where
  "generate_content path x p =
     (reply x, p\<lparr>clock := clock p + took x, trace := trace p @ [Outbound path]\<rparr>)"

text \<open>\<open>str.strip()\<close>.\<close>

definition strip :: "string \<Rightarrow> string" where
  "strip s = rev (dropWhile isspace (rev (dropWhile isspace s)))"

text \<open>\<open>api_key or os.getenv("GEMINI_API_KEY")\<close>, and the test \<open>not self.api_key\<close>: an
  empty string counts as absent.\<close>

definition resolve_api_key :: "string option \<Rightarrow> string option \<Rightarrow> string option" where
  "resolve_api_key api_key env_key =
     (case (case api_key of None \<Rightarrow> env_key | Some k \<Rightarrow> if k = [] then env_key else Some k) of
        None \<Rightarrow> None
      | Some k \<Rightarrow> if k = [] then None else Some k)"

subsection \<open>The analysis path\<close>

record contract_risk_analyzer =
  api_key :: string
  rate_limiter :: nat
  risk_rules :: "(string \<times> rule) list"

definition ContractRiskAnalyzer_init ::
    "string option \<Rightarrow> string option \<Rightarrow> process \<Rightarrow> (error + contract_risk_analyzer) \<times> process" where
  "ContractRiskAnalyzer_init key env_key p =
     (case resolve_api_key key env_key of
        None \<Rightarrow> (Inl (Error ''GEMINI_API_KEY not found in environment variables''), p)
      | Some k \<Rightarrow>
          (case RateLimiter 15 of
             Inl e \<Rightarrow> (Inl e, p)
           | Inr L \<Rightarrow>
               (let (ref, p') = allocate L p
                in (Inr \<lparr>api_key = k, rate_limiter = ref, risk_rules = load_risk_rules\<rparr>, p'))))"

record failure =
  success :: bool
  error :: string
  timestamp :: time

datatype analysis_result = Failed failure | Combined combined_report

text \<open>\<open>analyze_contract_comprehensive\<close>. Any exception of the \<open>try\<close> block ends in the
  failure record of the \<open>except\<close> clause.\<close>

definition analyze_contract_comprehensive ::
    "contract_risk_analyzer \<Rightarrow> external_call \<Rightarrow> string \<Rightarrow> process
       \<Rightarrow> (analysis_result \<times> process) option" where
  "analyze_contract_comprehensive self x contract_text p =
     (case wait_if_needed (contract_risk_analyzer.rate_limiter self) p of
        None \<Rightarrow> None
      | Some p1 \<Rightarrow>
          (let p2 = track_request ''contract_analysis'' p1;
               (response, p3) = generate_content ''contract_analysis'' x p2
           in case response of
                Inl e \<Rightarrow>
                  Some (Failed \<lparr>success = False,
                                error = ''Contract analysis failed: '' @ message e,
                                timestamp = clock p3\<rparr>, p3)
              | Inr text \<Rightarrow>
                  (let ai_text = strip text;
                       rule_analysis =
                         analyze_contract_rules (risk_rules self) (clock p3) contract_text
                   in Some (Combined (combine_analyses (Some ai_text) rule_analysis
                                        contract_text (clock p3)), p3))))"

text \<open>What a caller finds of the rule-based analysis in the result.\<close>

fun rule_section :: "analysis_result \<Rightarrow> rule_based_analysis option" where
  "rule_section (Failed f) = None"
| "rule_section (Combined c) = Some (rule_based_analysis c)"

fun succeeded :: "analysis_result \<Rightarrow> bool" where
  "succeeded (Failed f) = failure.success f"
| "succeeded (Combined c) = combined_report.success c"

subsection \<open>The generation path\<close>

text \<open>
  The helpers \<open>validate_contract_params\<close>, \<open>extract_contract_metadata\<close> and
  \<open>save_contract\<close> belong to \<open>utils.py\<close>, which is not among the sources: they are
  parameters. A validation result that holds the key \<open>error\<close> is \<open>Some\<close>. The attributes
  \<open>max_tokens\<close> and \<open>temperature\<close> of the generator are used by no call and are left out.
\<close>

type_synonym params = "(string \<times> string) list"

record ('v, 'm) utils =
  validate_contract_params :: "string \<Rightarrow> params \<Rightarrow> 'v option"
  extract_contract_metadata :: "string \<Rightarrow> error + 'm"
  save_contract :: "string \<Rightarrow> string \<Rightarrow> string list \<Rightarrow> error + string"

record contract_generator =
  api_key :: string
  rate_limiter :: nat

definition ContractGenerator_init ::
    "string option \<Rightarrow> string option \<Rightarrow> process \<Rightarrow> (error + contract_generator) \<times> process" where
  "ContractGenerator_init key env_key p =
     (case resolve_api_key key env_key of
        None \<Rightarrow> (Inl (Error ''GEMINI_API_KEY not found in environment variables''), p)
      | Some k \<Rightarrow>
          (case RateLimiter 15 of
             Inl e \<Rightarrow> (Inl e, p)
           | Inr L \<Rightarrow>
               (let (ref, p') = allocate L p
                in (Inr \<lparr>api_key = k, rate_limiter = ref\<rparr>, p'))))"

record generation_failure =
  success :: bool
  error :: string
  contract_type :: string
  parameters :: params
  timestamp :: time

definition generation_failed :: "error \<Rightarrow> string \<Rightarrow> params \<Rightarrow> process \<Rightarrow> generation_failure" where
  "generation_failed e ctype ps p =
     \<lparr>success = False,
      error = ''Contract generation failed: '' @ message e,
      contract_type = ctype, parameters = ps, timestamp = clock p\<rparr>"

record 'm generated =
  success :: bool
  contract_text :: string
  contract_type :: string
  metadata :: 'm
  parameters :: params
  file_path :: string
  generation_time :: rat
  model_used :: string
  generated_at :: time
  tokens_estimated :: nat
  cost_estimate :: string

datatype ('v, 'm) generation_result =
  Invalid 'v | Generated "'m generated" | GenerationFailed generation_failure

definition extract_parties :: "params \<Rightarrow> string list" where
  "extract_parties ps =
     (case (map_of ps ''party1'', map_of ps ''party2'') of
        (Some a, Some b) \<Rightarrow> [a, b]
      | _ \<Rightarrow>
        (case (map_of ps ''client'', map_of ps ''provider'') of
           (Some a, Some b) \<Rightarrow> [a, b]
         | _ \<Rightarrow>
           (case (map_of ps ''employer'', map_of ps ''employee'') of
              (Some a, Some b) \<Rightarrow> [a, b]
            | _ \<Rightarrow> [])))"

text \<open>\<open>_generate_contract\<close>: validation, then the limiter, then the external call inside
  the \<open>try\<close> block.\<close>

definition generate_contract ::
    "contract_generator \<Rightarrow> ('v, 'm) utils \<Rightarrow> string \<Rightarrow> external_call \<Rightarrow> params \<Rightarrow> process
       \<Rightarrow> (('v, 'm) generation_result \<times> process) option" where
  "generate_contract self u ctype x ps p =
     (case validate_contract_params u ctype ps of
        Some validation_result \<Rightarrow> Some (Invalid validation_result, p)
      | None \<Rightarrow>
          (case wait_if_needed (contract_generator.rate_limiter self) p of
             None \<Rightarrow> None
           | Some p1 \<Rightarrow>
               (let p2 = track_request ''contract_generation'' p1;
                    (response, p3) = generate_content ''contract_generation'' x p2
                in case response of
                     Inl e \<Rightarrow> Some (GenerationFailed (generation_failed e ctype ps p3), p3)
                   | Inr text \<Rightarrow>
                       (case extract_contract_metadata u (strip text) of
                          Inl e \<Rightarrow> Some (GenerationFailed (generation_failed e ctype ps p3), p3)
                        | Inr md \<Rightarrow>
                            (case save_contract u (strip text) ctype (extract_parties ps) of
                               Inl e \<Rightarrow> Some (GenerationFailed (generation_failed e ctype ps p3), p3)
                             | Inr path \<Rightarrow>
                                 Some (Generated
                                         \<lparr>success = True,
                                          contract_text = strip text,
                                          contract_type = ctype,
                                          metadata = md,
                                          parameters = ps,
                                          file_path = path,
                                          generation_time = round2 (took x),
                                          model_used = ''Google Gemini 1.5 Flash (FREE)'',
                                          generated_at = clock p3,
                                          tokens_estimated = length (strip text) div 4,
                                          cost_estimate = ''$0.00 (Free Tier)''\<rparr>, p3))))))"

subsection \<open>Start of the application\<close>

text \<open>\<open>app.py\<close>, \<open>run\<close>: the two components are created one after the other, each with no
  key argument; an exception of either ends the initialisation.\<close>

record session =
  contract_generator :: contract_generator
  risk_analyzer :: contract_risk_analyzer

definition initialize_components :: "string option \<Rightarrow> process \<Rightarrow> (error + session) \<times> process" where
  "initialize_components env_key p =
     (case ContractGenerator_init None env_key p of
        (Inl e, p1) \<Rightarrow> (Inl e, p1)
      | (Inr g, p1) \<Rightarrow>
          (case ContractRiskAnalyzer_init None env_key p1 of
             (Inl e, p2) \<Rightarrow> (Inl e, p2)
           | (Inr a, p2) \<Rightarrow> (Inr \<lparr>contract_generator = g, risk_analyzer = a\<rparr>, p2)))"

section \<open>Sequences of calls\<close>

text \<open>
  Modelled from the spec: sequential \<open>acquire()\<close> calls on one limiter. Each call is issued
  at its request time, or when the previous call has returned if that is later; the result
  is the limiter and the clock after the last call.
\<close>

fun acquire_all :: "rate_limiter_state \<Rightarrow> time \<Rightarrow> time list \<Rightarrow> (rate_limiter_state \<times> time) option" where
  "acquire_all L started [] = Some (L, started)"
| "acquire_all L started (t # ts) =
     (case acquire L (max started t) of
        None \<Rightarrow> None
      | Some (L', returned) \<Rightarrow> acquire_all L' returned ts)"

text \<open>The ceiling invariant of a limiter state: a positive ceiling, and no more recorded
  timestamps than the ceiling.\<close>

definition respects_ceiling :: "rate_limiter_state \<Rightarrow> bool" where
  "respects_ceiling L =
     (0 < max_requests_per_window L \<and> int (length (timestamps L)) \<le> max_requests_per_window L)"

text \<open>A number of generation requests, one after the other, through the same generator.\<close>

fun generate_many ::
    "nat \<Rightarrow> contract_generator \<Rightarrow> ('v, 'm) utils \<Rightarrow> external_call \<Rightarrow> process \<Rightarrow> process option" where
  "generate_many 0 g u x p = Some p"
| "generate_many (Suc n) g u x p =
     (case generate_contract g u ''NDA'' x [] p of
        None \<Rightarrow> None
      | Some (r, p') \<Rightarrow> generate_many n g u x p')"

section \<open>Sample inputs\<close>

text \<open>A text that names a cap on damages and a jurisdiction, and nothing else the catalog
  looks for.\<close>

definition sample_contract :: string where
  "sample_contract = ''Cap damages. Jurisdiction.''"


text \<open>A limiter of ceiling 2 and window 60, and one of ceiling 15 and window 60, with given
  timestamps.\<close>

definition limiter_2_60 :: "time list \<Rightarrow> rate_limiter_state" where
  "limiter_2_60 ts = \<lparr>max_requests_per_window = 2, window_duration = 60, timestamps = ts\<rparr>"

definition limiter_15 :: "time list \<Rightarrow> rate_limiter_state" where
  "limiter_15 ts = \<lparr>max_requests_per_window = 15, window_duration = 60, timestamps = ts\<rparr>"

text \<open>The application after its start with the key \<open>key\<close> in the environment: the two
  components, and the process that holds their two limiters.\<close>

definition sample_generator :: contract_generator where
  "sample_generator = \<lparr>api_key = ''key'', rate_limiter = 0\<rparr>"

definition sample_analyzer :: contract_risk_analyzer where
  "sample_analyzer =
     \<lparr>contract_risk_analyzer.api_key = ''key'', contract_risk_analyzer.rate_limiter = 1,
      risk_rules = load_risk_rules\<rparr>"

definition sample_session :: session where
  "sample_session = \<lparr>contract_generator = sample_generator, risk_analyzer = sample_analyzer\<rparr>"

definition started_process :: process where
  "started_process =
     \<lparr>heap = [0 \<mapsto> limiter_15 [], 1 \<mapsto> limiter_15 []], next_ref = 2, clock = 0,
      usage = [], trace = []\<rparr>"

text \<open>Helpers that accept every request, an external call that answers at once, and one
  that fails.\<close>

definition sample_utils :: "(unit, unit) utils" where
  "sample_utils =
     \<lparr>validate_contract_params = (\<lambda>ctype ps. None),
      extract_contract_metadata = (\<lambda>text. Inr ()),
      save_contract = (\<lambda>text ctype parties. Inr ''contract.txt'')\<rparr>"

definition instant_call :: external_call where
  "instant_call = \<lparr>took = 0, reply = Inr ''text''\<rparr>"

definition failing_call :: external_call where
  "failing_call = \<lparr>took = 0, reply = Inl (Error ''quota exceeded'')\<rparr>"

text \<open>One generation request, then one analysis request, from the start of the
  application.\<close>

definition one_of_each :: "(analysis_result \<times> process) option" where
  "one_of_each =
     (case generate_contract sample_generator sample_utils ''NDA'' instant_call [] started_process of
        None \<Rightarrow> None
      | Some (r, p) \<Rightarrow> analyze_contract_comprehensive sample_analyzer instant_call '''' p)"

text \<open>The process after fifteen generation requests at time 0: the generator's limiter
  holds fifteen timestamps, so that its next call has to wait.\<close>

definition busy_process :: process where
  "busy_process =
     (case generate_many 15 sample_generator sample_utils instant_call started_process of
        None \<Rightarrow> started_process
      | Some p \<Rightarrow> p)"

section \<open>The loop of the rule engine, characterised\<close>

lemma patterns_found_empty:
  "(patterns_found r low = []) = (\<forall>p \<in> set (patterns r). \<not> re_search p low)"
  by (simp add: patterns_found_def filter_empty_conv)

lemma scan_rules_eq:
  "scan_rules rules low (acc, tot) =
     (acc @ map (\<lambda>(rid, r). make_risk rid r) (filter (rule_missing low) rules),
      tot + sum_list (map (\<lambda>(rid, r). rule.weight r) (filter (rule_missing low) rules)))"
proof (induction rules arbitrary: acc tot)
  case Nil
  show ?case by simp
next
  case (Cons a rules)
  obtain rid r where a: "a = (rid, r)" by (cases a)
  show ?case
    by (simp add: a Cons.IH rule_missing_def patterns_found_empty)
qed

lemma report_fields:
  "rule_report.risks_identified (analyze_contract_rules rules now t)
     = map (\<lambda>(rid, r). make_risk rid r) (filter (rule_missing (lower t)) rules)"
  "overall_risk_score (analyze_contract_rules rules now t) = round2 (normalized_risk_score rules t)"
  "rule_report.risk_level (analyze_contract_rules rules now t) = level_of (normalized_risk_score rules t)"
  "total_risks (analyze_contract_rules rules now t)
     = length (rule_report.risks_identified (analyze_contract_rules rules now t))"
  "rule_report.risks_by_severity (analyze_contract_rules rules now t)
     = group_risks_by_severity (rule_report.risks_identified (analyze_contract_rules rules now t))"
  by (simp_all add: analyze_contract_rules_def Let_def scan_rules_eq)

lemma normalized_eq:
  "normalized_risk_score rules t =
     (if 0 < max_possible_risk rules
      then min (total_weight_of_missing_rules rules t / max_possible_risk rules) 1 else 0)"
  by (simp add: normalized_risk_score_def Let_def scan_rules_eq total_weight_of_missing_rules_def)

lemma group_loop_eq:
  "group_loop xs [(''HIGH'', h), (''MEDIUM'', m), (''LOW'', l)] =
     [(''HIGH'', h @ filter (\<lambda>x. risk.severity x = ''HIGH'') xs),
      (''MEDIUM'', m @ filter (\<lambda>x. risk.severity x = ''MEDIUM'') xs),
      (''LOW'', l @ filter (\<lambda>x. risk.severity x = ''LOW'') xs)]"
proof (induction xs arbitrary: h m l)
  case Nil
  show ?case by simp
next
  case (Cons x xs)
  show ?case
    by (simp add: Cons.IH append_to_def)
qed

lemma severity_partition:
  assumes "\<forall>x \<in> set xs. risk.severity x \<in> {''HIGH'', ''MEDIUM'', ''LOW''}"
  shows "length (filter (\<lambda>x. risk.severity x = ''HIGH'') xs)
         + length (filter (\<lambda>x. risk.severity x = ''MEDIUM'') xs)
         + length (filter (\<lambda>x. risk.severity x = ''LOW'') xs) = length xs"
  using assms by (induction xs) auto

lemma subseq_findings:
  "subseq (map risk_id (map (\<lambda>(rid, r). make_risk rid r) (filter P rules))) (map fst rules)"
proof -
  have "map risk_id (map (\<lambda>(rid, r). make_risk rid r) (filter P rules)) = map fst (filter P rules)"
    by (induction rules) (auto simp: make_risk_def)
  then show ?thesis
    by (simp only: subseq_map subseq_filter_left)
qed

subsection \<open>Arithmetic of the score\<close>

lemma round2_bounds:
  assumes "0 \<le> x" and "x \<le> 1"
  shows "0 \<le> round2 x \<and> round2 x \<le> 1"
proof -
  define y where "y = x * 100"
  define f where "f = \<lfloor>y\<rfloor>"
  define d where "d = y - of_int f"
  define g where "g = (if d < 1 / 2 then f else if 1 / 2 < d then f + 1
                       else if even f then f else f + 1)"
  have r: "round2 x = of_int g / 100"
    by (simp add: round2_def Let_def y_def f_def d_def g_def)
  have y0: "0 \<le> y" and y1: "y \<le> 100"
    using assms by (simp_all add: y_def)
  have f0: "0 \<le> f"
    using y0 by (simp add: f_def)
  have f1: "f \<le> 100"
    using y1 by (simp add: f_def floor_le_iff)
  have top: "f = 100 \<Longrightarrow> d = 0"
  proof -
    assume h: "f = 100"
    have "of_int f \<le> y" by (simp add: f_def)
    with h y1 have "y = 100" by simp
    with h show "d = 0" by (simp add: d_def)
  qed
  have g0: "0 \<le> g"
    using f0 by (simp add: g_def)
  have g1: "g \<le> 100"
  proof (cases "f = 100")
    case True
    with top show ?thesis by (simp add: g_def)
  next
    case False
    with f1 have "f + 1 \<le> 100" by simp
    with f1 show ?thesis by (simp add: g_def)
  qed
  have "(0::rat) \<le> of_int g" using g0 by simp
  moreover have "(of_int g :: rat) \<le> 100" using g1 by simp
  ultimately show ?thesis by (simp add: r)
qed

lemma round2_zero: "round2 0 = 0"
  by (simp add: round2_def)

lemma round2_one: "round2 1 = 1"
  by (simp add: round2_def Let_def)

lemma round2_sample: "round2 (37 / 53) = 7 / 10"
proof -
  have f: "\<lfloor>37 / 53 * 100 :: rat\<rfloor> = 69"
    by (simp add: floor_eq_iff)
  show ?thesis
    unfolding round2_def Let_def f by simp
qed

lemma sum_filter_le:
  fixes f :: "'a \<Rightarrow> rat"
  assumes "\<forall>x \<in> set xs. 0 \<le> f x"
  shows "0 \<le> sum_list (map f (filter P xs))
         \<and> sum_list (map f (filter P xs)) \<le> sum_list (map f xs)"
  using assms by (induction xs) (auto simp: add_increasing)

lemma positive_total:
  fixes f :: "'a \<Rightarrow> rat"
  assumes "\<forall>x \<in> set xs. 0 \<le> f x" and "\<exists>x \<in> set xs. f x \<noteq> 0"
  shows "0 < sum_list (map f xs)"
  using assms
proof (induction xs)
  case Nil
  then show ?case by simp
next
  case (Cons a xs)
  have rest: "0 \<le> sum_list (map f xs)"
    using Cons.prems(1) by (auto intro!: sum_list_nonneg)
  show ?case
  proof (cases "f a = 0")
    case True
    with Cons show ?thesis by simp
  next
    case False
    with Cons.prems(1) have "0 < f a" by (simp add: less_le)
    with rest show ?thesis by (simp add: add_pos_nonneg)
  qed
qed

lemma normalized_bounds:
  assumes "\<forall>(rid, r) \<in> set rules. 0 \<le> rule.weight r"
  shows "0 \<le> normalized_risk_score rules t \<and> normalized_risk_score rules t \<le> 1"
proof -
  let ?w = "\<lambda>(rid, r). rule.weight r"
  let ?tot = "sum_list (map ?w (filter (rule_missing (lower t)) rules))"
  have nn: "\<forall>x \<in> set rules. 0 \<le> ?w x"
    using assms by auto
  have "0 \<le> ?tot"
    using sum_filter_le [OF nn] by blast
  then show ?thesis
    by (simp add: normalized_risk_score_def scan_rules_eq Let_def)
qed

subsection \<open>The catalog and the sample text, evaluated\<close>

lemma max_possible_catalog: "max_possible_risk load_risk_rules = 53 / 10"
  by (simp add: max_possible_risk_def load_risk_rules_def)

lemma catalog_nonneg: "\<forall>(rid, r) \<in> set load_risk_rules. 0 \<le> rule.weight r"
  by (simp add: load_risk_rules_def)

lemma catalog_nonzero: "\<exists>(rid, r) \<in> set load_risk_rules. rule.weight r \<noteq> 0"
  by (simp add: load_risk_rules_def)

lemma catalog_severities:
  "\<forall>(rid, r) \<in> set load_risk_rules. rule.severity r \<in> {''HIGH'', ''MEDIUM'', ''LOW''}"
  by (simp add: load_risk_rules_def)

lemma finding_severities:
  "\<forall>x \<in> set (rule_report.risks_identified (analyze_contract_rules load_risk_rules now t)).
     risk.severity x \<in> {''HIGH'', ''MEDIUM'', ''LOW''}"
  using catalog_severities by (auto simp: report_fields make_risk_def)

lemma no_match_empty:
  "\<forall>(rid, r) \<in> set load_risk_rules. \<forall>p \<in> set (patterns r). \<not> re_search p ''''"
  by (simp add: load_risk_rules_def lit_def dot_star_def dot_opt_def digits_def)

lemma scan_total_sample:
  "snd (scan_rules load_risk_rules (lower sample_contract) ([], 0)) = 37 / 10"
  by code_simp

lemma missing_weight_sample: "total_weight_of_missing_rules load_risk_rules sample_contract = 37 / 10"
  using scan_total_sample by (simp add: scan_rules_eq total_weight_of_missing_rules_def)

lemma normalized_sample: "normalized_risk_score load_risk_rules sample_contract = 37 / 53"
  by (simp add: normalized_risk_score_def Let_def scan_total_sample max_possible_catalog)

lemma level_sample: "level_of (37 / 53) = ''MEDIUM''"
  by (simp add: level_of_def)

section \<open>The rule report\<close>

text \<open>
  Claim C2, as stated, at a concrete input: two calls of \<open>analyze_contract_rules\<close> on the
  same text, made at different readings of the clock, return different reports, because
  the report carries \<open>analysis_timestamp\<close>.
\<close>

theorem analyze_contract_rules_timestamp_differs:
  "analyze_contract_rules load_risk_rules 0 '''' \<noteq> analyze_contract_rules load_risk_rules 1 ''''"
proof
  assume "analyze_contract_rules load_risk_rules 0 '''' = analyze_contract_rules load_risk_rules 1 ''''"
  then have "analysis_timestamp (analyze_contract_rules load_risk_rules 0 '''')
               = analysis_timestamp (analyze_contract_rules load_risk_rules 1 '''')"
    by simp
  then show False
    by (simp add: analyze_contract_rules_def Let_def)
qed

text \<open>
  Claim C2, amended: rule-based evaluation is a function of the catalog, the text and the
  reading of the clock, with no other effect; two calls on the same text return reports
  that are equal in every field except \<open>analysis_timestamp\<close>, which is the clock reading
  of each call.
\<close>

theorem analyze_contract_rules_equal_but_timestamp:
  "analyze_contract_rules rules t1 text
     = (analyze_contract_rules rules t2 text)\<lparr>analysis_timestamp := t1\<rparr>"
  by (simp add: analyze_contract_rules_def Let_def)

theorem analyze_contract_rules_equal_but_timestamp_witness:
  "analyze_contract_rules load_risk_rules 0 sample_contract
     = (analyze_contract_rules load_risk_rules 1 sample_contract)\<lparr>analysis_timestamp := 0\<rparr>"
  by (rule analyze_contract_rules_equal_but_timestamp)

text \<open>
  Claim C3: the risk level is HIGH for a score of 0.7 or more, MEDIUM for a score of at
  least 0.4 and below 0.7, LOW for any lower score; 0.699999 gives MEDIUM, 0.7 HIGH,
  0.399999 LOW and 0.4 MEDIUM; the level of a report is the level of its unrounded
  normalized score.
\<close>

theorem risk_level_thresholds:
  assumes "7 / 10 \<le> hi" and "4 / 10 \<le> mid" and "mid < 7 / 10" and "lo < 4 / 10"
  shows "level_of hi = ''HIGH'' \<and> level_of mid = ''MEDIUM'' \<and> level_of lo = ''LOW''
         \<and> level_of (699999 / 1000000) = ''MEDIUM'' \<and> level_of (7 / 10) = ''HIGH''
         \<and> level_of (399999 / 1000000) = ''LOW'' \<and> level_of (4 / 10) = ''MEDIUM''
         \<and> rule_report.risk_level (analyze_contract_rules rules now t)
             = level_of (normalized_risk_score rules t)"
  using assms by (simp add: level_of_def report_fields)

theorem risk_level_thresholds_witness:
  "level_of (7 / 10) = ''HIGH'' \<and> level_of (699999 / 1000000) = ''MEDIUM''
   \<and> level_of (399999 / 1000000) = ''LOW''
   \<and> rule_report.risk_level (analyze_contract_rules load_risk_rules 0 sample_contract) = ''MEDIUM''"
  using risk_level_thresholds
          [of "7 / 10" "699999 / 1000000" "399999 / 1000000" load_risk_rules 0 sample_contract]
  by (simp add: normalized_sample level_sample)

text \<open>
  Claim C4: on the empty text every rule of the catalog is a finding, and the normalized
  score is the maximum, 1.0, given that at least one rule has a nonzero weight. This holds
  for every catalog of non-negative weights none of whose patterns matches the empty
  text; the program's catalog is one (the witness).
\<close>

theorem empty_text_all_rules_missing:
  assumes nomatch: "\<forall>(rid, r) \<in> set rules. \<forall>p \<in> set (patterns r). \<not> re_search p ''''"
    and nonneg: "\<forall>(rid, r) \<in> set rules. 0 \<le> rule.weight r"
    and nonzero: "\<exists>(rid, r) \<in> set rules. rule.weight r \<noteq> 0"
  shows "rule_report.risks_identified (analyze_contract_rules rules now '''')
           = map (\<lambda>(rid, r). make_risk rid r) rules
         \<and> total_risks (analyze_contract_rules rules now '''') = length rules
         \<and> normalized_risk_score rules '''' = 1
         \<and> overall_risk_score (analyze_contract_rules rules now '''') = 1"
proof -
  have all: "filter (rule_missing (lower '''')) rules = rules"
    using nomatch by (auto simp: rule_missing_def lower_def filter_id_conv)
  have nn: "\<forall>x \<in> set rules. 0 \<le> (\<lambda>(rid, r). rule.weight r) x"
    using nonneg by auto
  have nz: "\<exists>x \<in> set rules. (\<lambda>(rid, r). rule.weight r) x \<noteq> 0"
    using nonzero by (simp add: case_prod_beta)
  have pos: "0 < max_possible_risk rules"
    unfolding max_possible_risk_def by (rule positive_total [OF nn nz])
  have mw: "total_weight_of_missing_rules rules '''' = max_possible_risk rules"
    by (simp add: total_weight_of_missing_rules_def all max_possible_risk_def)
  have n: "normalized_risk_score rules '''' = 1"
    using pos by (simp add: normalized_eq mw)
  show ?thesis
    by (simp add: report_fields all n round2_one)
qed

theorem empty_text_all_rules_missing_witness:
  "map risk_id (rule_report.risks_identified (analyze_contract_rules load_risk_rules 0 ''''))
     = map fst load_risk_rules
   \<and> total_risks (analyze_contract_rules load_risk_rules 0 '''') = 10
   \<and> overall_risk_score (analyze_contract_rules load_risk_rules 0 '''') = 1"
proof -
  have ids: "map risk_id (map (\<lambda>(rid, r). make_risk rid r) load_risk_rules) = map fst load_risk_rules"
    by (simp add: make_risk_def case_prod_beta)
  have len: "length load_risk_rules = 10"
    by (simp add: load_risk_rules_def)
  note c = empty_text_all_rules_missing [OF no_match_empty catalog_nonneg catalog_nonzero, of 0]
  show ?thesis
    using c by (simp only: ids len)
qed

text \<open>
  Claim C5, as stated, at a concrete input: on the sample text the reported
  \<open>overall_risk_score\<close> is 0.7, which is not min(3.7 / 5.3, 1.0).
\<close>

theorem overall_risk_score_is_rounded:
  "overall_risk_score (analyze_contract_rules load_risk_rules 0 sample_contract)
     \<noteq> min (total_weight_of_missing_rules load_risk_rules sample_contract
              / max_possible_risk load_risk_rules) 1"
  by (simp add: report_fields normalized_sample round2_sample missing_weight_sample
        max_possible_catalog)

text \<open>
  Claim C5, amended: for every input text and every catalog of non-negative weights, the
  \<open>overall_risk_score\<close> of the report lies between 0 and 1 inclusive: it is
  min(total weight of missing rules / total weight of all rules, 1.0) rounded to two
  decimal places, and 0 when the catalog's total weight is 0.
\<close>

theorem overall_risk_score_bounds:
  assumes nonneg: "\<forall>(rid, r) \<in> set rules. 0 \<le> rule.weight r"
  shows "0 \<le> overall_risk_score (analyze_contract_rules rules now t)
         \<and> overall_risk_score (analyze_contract_rules rules now t) \<le> 1
         \<and> overall_risk_score (analyze_contract_rules rules now t)
             = round2 (if 0 < max_possible_risk rules
                       then min (total_weight_of_missing_rules rules t / max_possible_risk rules) 1
                       else 0)
         \<and> (max_possible_risk rules = 0
              \<longrightarrow> overall_risk_score (analyze_contract_rules rules now t) = 0)"
proof -
  have b: "0 \<le> normalized_risk_score rules t \<and> normalized_risk_score rules t \<le> 1"
    by (rule normalized_bounds [OF nonneg])
  have r: "0 \<le> round2 (normalized_risk_score rules t)
           \<and> round2 (normalized_risk_score rules t) \<le> 1"
    using b by (intro round2_bounds) simp_all
  show ?thesis
    using r by (simp add: report_fields normalized_eq round2_zero)
qed

theorem overall_risk_score_bounds_witness:
  "overall_risk_score (analyze_contract_rules load_risk_rules 0 sample_contract) = 7 / 10
   \<and> round2 (min (total_weight_of_missing_rules load_risk_rules sample_contract
                   / max_possible_risk load_risk_rules) 1) = 7 / 10"
  using overall_risk_score_bounds [OF catalog_nonneg, of 0 sample_contract]
  by (simp add: missing_weight_sample max_possible_catalog round2_sample)

text \<open>
  Claim C6: in every report of the rule-based evaluation the severity grouping is a
  partition of the findings. The grouping has the three buckets HIGH, MEDIUM and LOW, each
  the findings of that severity in the order of the findings; their lengths sum to
  \<open>total_risks\<close>; and the findings follow the catalog's iteration order.
\<close>

theorem severity_grouping_partition:
  "rule_report.risks_by_severity (analyze_contract_rules load_risk_rules now t) =
     [(''HIGH'', filter (\<lambda>x. risk.severity x = ''HIGH'')
                   (rule_report.risks_identified (analyze_contract_rules load_risk_rules now t))),
      (''MEDIUM'', filter (\<lambda>x. risk.severity x = ''MEDIUM'')
                   (rule_report.risks_identified (analyze_contract_rules load_risk_rules now t))),
      (''LOW'', filter (\<lambda>x. risk.severity x = ''LOW'')
                   (rule_report.risks_identified (analyze_contract_rules load_risk_rules now t)))]
   \<and> sum_list (map (\<lambda>(k, v). length v)
                 (rule_report.risks_by_severity (analyze_contract_rules load_risk_rules now t)))
       = total_risks (analyze_contract_rules load_risk_rules now t)
   \<and> subseq (map risk_id (rule_report.risks_identified (analyze_contract_rules load_risk_rules now t)))
              (map fst load_risk_rules)"
proof -
  let ?rep = "analyze_contract_rules load_risk_rules now t"
  have g: "rule_report.risks_by_severity ?rep =
     [(''HIGH'', filter (\<lambda>x. risk.severity x = ''HIGH'') (rule_report.risks_identified ?rep)),
      (''MEDIUM'', filter (\<lambda>x. risk.severity x = ''MEDIUM'') (rule_report.risks_identified ?rep)),
      (''LOW'', filter (\<lambda>x. risk.severity x = ''LOW'') (rule_report.risks_identified ?rep))]"
    using group_loop_eq [of "rule_report.risks_identified ?rep" "[]" "[]" "[]"]
    by (simp add: report_fields(5) group_risks_by_severity_def)
  have s: "sum_list (map (\<lambda>(k, v). length v) (rule_report.risks_by_severity ?rep)) = total_risks ?rep"
    using severity_partition [OF finding_severities, of now t]
    by (simp add: g report_fields(4))
  have o: "subseq (map risk_id (rule_report.risks_identified ?rep)) (map fst load_risk_rules)"
    by (simp only: report_fields(1) subseq_findings)
  show ?thesis
    using g s o by blast
qed

theorem severity_grouping_partition_witness:
  "sum_list (map (\<lambda>(k, v). length v)
               (rule_report.risks_by_severity (analyze_contract_rules load_risk_rules 0 sample_contract)))
     = total_risks (analyze_contract_rules load_risk_rules 0 sample_contract)
   \<and> map fst (rule_report.risks_by_severity (analyze_contract_rules load_risk_rules 0 sample_contract))
       = [''HIGH'', ''MEDIUM'', ''LOW'']"
proof -
  note c = severity_grouping_partition [of 0 sample_contract]
  have keys: "map fst (rule_report.risks_by_severity
                         (analyze_contract_rules load_risk_rules 0 sample_contract))
                = [''HIGH'', ''MEDIUM'', ''LOW'']"
    by (subst conjunct1 [OF c]) simp
  show ?thesis
    using conjunct1 [OF conjunct2 [OF c]] keys by (rule conjI)
qed

text \<open>
  Claim C10: the reported \<open>overall_risk_score\<close> is the normalized score rounded to two
  decimal places, while \<open>risk_level\<close> comes from the unrounded score. On the sample text
  the missing rules weigh 3.7 out of 5.3, the unrounded score 37/53 lies in [0.695, 0.7),
  and the report carries the score 0.7 together with the level MEDIUM.
\<close>

theorem rounded_score_unrounded_level:
  "overall_risk_score (analyze_contract_rules rules now t) = round2 (normalized_risk_score rules t)
   \<and> rule_report.risk_level (analyze_contract_rules rules now t)
       = level_of (normalized_risk_score rules t)
   \<and> total_weight_of_missing_rules load_risk_rules sample_contract = 37 / 10
   \<and> max_possible_risk load_risk_rules = 53 / 10
   \<and> normalized_risk_score load_risk_rules sample_contract = 37 / 53
   \<and> (695 / 1000 :: rat) \<le> 37 / 53 \<and> (37 / 53 :: rat) < 7 / 10
   \<and> overall_risk_score (analyze_contract_rules load_risk_rules now sample_contract) = 7 / 10
   \<and> rule_report.risk_level (analyze_contract_rules load_risk_rules now sample_contract) = ''MEDIUM''"
  by (simp add: report_fields missing_weight_sample max_possible_catalog normalized_sample
        round2_sample level_sample)

theorem rounded_score_unrounded_level_witness:
  "overall_risk_score (analyze_contract_rules load_risk_rules 0 sample_contract) = 7 / 10
   \<and> rule_report.risk_level (analyze_contract_rules load_risk_rules 0 sample_contract) = ''MEDIUM''"
proof -
  note c = rounded_score_unrounded_level [of load_risk_rules 0 sample_contract]
  from c have score: "overall_risk_score (analyze_contract_rules load_risk_rules 0 sample_contract) = 7 / 10"
    by blast
  from c have level: "rule_report.risk_level (analyze_contract_rules load_risk_rules 0 sample_contract) = ''MEDIUM''"
    by blast
  show ?thesis
    using score level by (rule conjI)
qed

section \<open>The combined report\<close>

text \<open>
  Claim C7, on the code: for every findings list, \<open>immediate_actions\<close> is the
  recommendations of the HIGH findings and \<open>medium_term_improvements\<close> those of the MEDIUM
  findings, in finding order; \<open>long_term_considerations\<close> is Python's \<open>None\<close>, not the
  empty list the claim states.
\<close>

theorem long_term_considerations_none:
  "long_term_considerations (recommendations (combine_analyses ai rep t now)) = None
   \<and> long_term_considerations (recommendations (combine_analyses ai rep t now)) \<noteq> Some []
   \<and> immediate_actions (recommendations (combine_analyses ai rep t now))
       = map risk.recommendation
           (filter (\<lambda>x. risk.severity x = ''HIGH'') (rule_report.risks_identified rep))
   \<and> medium_term_improvements (recommendations (combine_analyses ai rep t now))
       = map risk.recommendation
           (filter (\<lambda>x. risk.severity x = ''MEDIUM'') (rule_report.risks_identified rep))"
  by (simp add: combine_analyses_def Let_def get_low_priority_recommendations_def
        get_high_priority_recommendations_def get_medium_priority_recommendations_def)

section \<open>The ceiling of the rate limiter\<close>

declare acquire.simps [simp del]

lemma acquire_returns:
  "0 < max_requests_per_window L \<Longrightarrow>
   \<exists>L' t'. acquire L now = Some (L', t') \<and> respects_ceiling L' \<and> now \<le> t'
            \<and> max_requests_per_window L' = max_requests_per_window L
            \<and> window_duration L' = window_duration L"
proof (induction L now rule: acquire.induct)
  case (1 L now)
  show ?case
  proof (cases "int (length (purge L now)) < max_requests_per_window L")
    case True
    with "1.prems" show ?thesis
      by (subst acquire.simps) (simp add: respects_ceiling_def)
  next
    case False
    with "1.prems" obtain oldest rest where kept: "purge L now = oldest # rest"
      by (cases "purge L now") auto
    let ?L = "L\<lparr>timestamps := purge L now\<rparr>"
    let ?later = "now + max 0 (window_duration L - (now - oldest))"
    have "0 < max_requests_per_window ?L"
      using "1.prems" by simp
    from "1.IH" [OF False kept this]
    obtain L' t' where r: "acquire ?L ?later = Some (L', t')" "respects_ceiling L'" "?later \<le> t'"
        "max_requests_per_window L' = max_requests_per_window L"
        "window_duration L' = window_duration L"
      by auto
    have "acquire L now = Some (L', t')"
      using False r(1) by (subst acquire.simps) (simp add: kept)
    moreover have "now \<le> t'"
      using r(3) by (simp add: max_def split: if_splits)
    ultimately show ?thesis
      using r by blast
  qed
qed

lemma in_window_le: "in_window L t \<le> length (timestamps L)"
  by (simp add: in_window_def purge_def)

lemma acquire_all_returns:
  "respects_ceiling L \<Longrightarrow>
   \<exists>L' c. acquire_all L started calls = Some (L', c) \<and> respects_ceiling L' \<and> started \<le> c
          \<and> max_requests_per_window L' = max_requests_per_window L"
proof (induction calls arbitrary: L started)
  case Nil
  then show ?case by simp
next
  case (Cons t calls)
  from Cons.prems have "0 < max_requests_per_window L"
    by (simp add: respects_ceiling_def)
  from acquire_returns [OF this, of "max started t"]
  obtain L1 c1 where a: "acquire L (max started t) = Some (L1, c1)" "respects_ceiling L1"
      "max started t \<le> c1" "max_requests_per_window L1 = max_requests_per_window L"
    by blast
  from Cons.IH [OF a(2), of c1]
  obtain L' c where b: "acquire_all L1 c1 calls = Some (L', c)" "respects_ceiling L'" "c1 \<le> c"
      "max_requests_per_window L' = max_requests_per_window L1"
    by blast
  have "acquire_all L started (t # calls) = Some (L', c)"
    by (simp add: a(1) b(1))
  moreover have "started \<le> c"
    using a(3) b(3) by simp
  ultimately show ?case
    using b(2) b(4) a(4) by simp
qed

lemma first_of_three: "acquire (limiter_2_60 []) 0 = Some (limiter_2_60 [0], 0)"
  by (subst acquire.simps) (simp add: limiter_2_60_def purge_def)

lemma second_of_three: "acquire (limiter_2_60 [0]) 0 = Some (limiter_2_60 [0, 0], 0)"
  by (subst acquire.simps) (simp add: limiter_2_60_def purge_def)

lemma third_of_three: "acquire (limiter_2_60 [0, 0]) 0 = Some (limiter_2_60 [60], 60)"
  apply (subst acquire.simps)
  apply (simp add: limiter_2_60_def purge_def)
  apply (subst acquire.simps)
  apply (simp add: limiter_2_60_def purge_def)
  done

lemma fourth_at_61: "acquire (limiter_2_60 [60]) 61 = Some (limiter_2_60 [60, 61], 61)"
  by (subst acquire.simps) (simp add: limiter_2_60_def purge_def)

lemma new_limiter_2_60: "new_rate_limiter 2 60 = Inr (limiter_2_60 [])"
  by (simp add: new_rate_limiter_def limiter_2_60_def)

text \<open>
  Claim C9: after any sequence of \<open>acquire()\<close> calls on a limiter that construction
  accepted, every call has returned and, at every instant, the number of timestamps
  recorded within the trailing window is at most the ceiling. With a ceiling of 2 and a
  window of 60, three calls at time 0 admit the first two at once and the third at time
  60, and a fourth call at time 61 is admitted at once.
\<close>

theorem rate_limiter_ceiling:
  assumes "new_rate_limiter m w = Inr L0"
  shows "(\<exists>L c. acquire_all L0 started calls = Some (L, c) \<and> started \<le> c
                \<and> max_requests_per_window L = m \<and> (\<forall>t. int (in_window L t) \<le> m))
     \<and> new_rate_limiter 2 60 = Inr (limiter_2_60 [])
     \<and> acquire (limiter_2_60 []) 0 = Some (limiter_2_60 [0], 0)
     \<and> acquire (limiter_2_60 [0]) 0 = Some (limiter_2_60 [0, 0], 0)
     \<and> acquire (limiter_2_60 [0, 0]) 0 = Some (limiter_2_60 [60], 60)
     \<and> acquire (limiter_2_60 [60]) 61 = Some (limiter_2_60 [60, 61], 61)"
proof -
  from assms have ok: "respects_ceiling L0" and m: "max_requests_per_window L0 = m"
    by (auto simp: new_rate_limiter_def respects_ceiling_def split: if_splits)
  from acquire_all_returns [OF ok, of started calls]
  obtain L c where r: "acquire_all L0 started calls = Some (L, c)" "respects_ceiling L"
      "started \<le> c" "max_requests_per_window L = max_requests_per_window L0"
    by blast
  have "int (in_window L t) \<le> m" for t
  proof -
    have "int (in_window L t) \<le> int (length (timestamps L))"
      using in_window_le [of L t] by simp
    also have "\<dots> \<le> m"
      using r(2) r(4) m by (simp add: respects_ceiling_def)
    finally show ?thesis .
  qed
  with r m have general: "\<exists>L c. acquire_all L0 started calls = Some (L, c) \<and> started \<le> c
                \<and> max_requests_per_window L = m \<and> (\<forall>t. int (in_window L t) \<le> m)"
    by auto
  show ?thesis
    using general new_limiter_2_60 first_of_three second_of_three third_of_three fourth_at_61
    by blast
qed

theorem rate_limiter_ceiling_witness:
  "new_rate_limiter 2 60 = Inr (limiter_2_60 [])
   \<and> acquire_all (limiter_2_60 []) 0 [0, 0, 0, 61] = Some (limiter_2_60 [60, 61], 61)
   \<and> int (in_window (limiter_2_60 [60, 61]) 61) \<le> 2"
proof -
  have run: "acquire_all (limiter_2_60 []) 0 [0, 0, 0, 61] = Some (limiter_2_60 [60, 61], 61)"
    by (simp add: first_of_three second_of_three third_of_three fourth_at_61)
  from rate_limiter_ceiling [OF new_limiter_2_60, of 0 "[0, 0, 0, 61]"]
  obtain L c where r: "acquire_all (limiter_2_60 []) 0 [0, 0, 0, 61] = Some (L, c)"
      "\<forall>t. int (in_window L t) \<le> 2"
    by blast
  from r(1) run have "L = limiter_2_60 [60, 61]"
    by simp
  with r(2) have "int (in_window (limiter_2_60 [60, 61]) 61) \<le> 2"
    by blast
  with new_limiter_2_60 run show ?thesis
    by blast
qed

section \<open>The two caller paths\<close>

lemma wait_if_needed_effect:
  assumes "wait_if_needed ref p = Some p1"
  shows "trace p1 = trace p @ [Acquired ref] \<and> usage p1 = usage p
         \<and> (\<forall>other. other \<noteq> ref \<longrightarrow> heap p1 other = heap p other)"
  using assms by (auto simp: wait_if_needed_def split: option.splits)

lemma analysis_effect:
  assumes "analyze_contract_comprehensive a x t p = Some (r, p')"
  shows "trace p' = trace p @ [Acquired (contract_risk_analyzer.rate_limiter a),
                               Outbound ''contract_analysis'']
         \<and> (\<forall>other. other \<noteq> contract_risk_analyzer.rate_limiter a \<longrightarrow> heap p' other = heap p other)"
proof -
  from assms obtain p1 where w: "wait_if_needed (contract_risk_analyzer.rate_limiter a) p = Some p1"
    by (auto simp: analyze_contract_comprehensive_def split: option.splits)
  from assms w have p': "p' = snd (generate_content ''contract_analysis'' x
                                     (track_request ''contract_analysis'' p1))"
    by (auto simp: analyze_contract_comprehensive_def Let_def split: prod.splits sum.splits)
  show ?thesis
    using wait_if_needed_effect [OF w]
    by (simp add: p' generate_content_def track_request_def)
qed

lemma generation_effect:
  assumes "generate_contract g u ctype x ps p = Some (r, p')"
  shows "(validate_contract_params u ctype ps = None \<longrightarrow>
            trace p' = trace p @ [Acquired (contract_generator.rate_limiter g),
                                  Outbound ''contract_generation''])
         \<and> (validate_contract_params u ctype ps \<noteq> None \<longrightarrow> trace p' = trace p)
         \<and> (\<forall>other. other \<noteq> contract_generator.rate_limiter g \<longrightarrow> heap p' other = heap p other)"
proof (cases "validate_contract_params u ctype ps")
  case (Some v)
  with assms show ?thesis
    by (simp add: generate_contract_def)
next
  case None
  from assms None obtain p1 where w: "wait_if_needed (contract_generator.rate_limiter g) p = Some p1"
    by (auto simp: generate_contract_def split: option.splits)
  from assms None w have p': "p' = snd (generate_content ''contract_generation'' x
                                     (track_request ''contract_generation'' p1))"
    by (auto simp: generate_contract_def Let_def split: prod.splits sum.splits)
  show ?thesis
    using wait_if_needed_effect [OF w] None
    by (simp add: p' generate_content_def track_request_def)
qed

lemma init_distinct:
  assumes "initialize_components env p0 = (Inr s, p)"
  shows "contract_generator.rate_limiter (contract_generator s)
           \<noteq> contract_risk_analyzer.rate_limiter (risk_analyzer s)"
  using assms
  by (auto simp: initialize_components_def ContractGenerator_init_def ContractRiskAnalyzer_init_def
        allocate_def Let_def split: option.splits sum.splits prod.splits)

lemma init_sample:
  "initialize_components (Some ''key'') initial_process = (Inr sample_session, started_process)"
  by (simp add: initialize_components_def ContractGenerator_init_def ContractRiskAnalyzer_init_def
        resolve_api_key_def RateLimiter_def new_rate_limiter_def allocate_def initial_process_def
        sample_session_def sample_generator_def sample_analyzer_def started_process_def limiter_15_def)

lemma gen_busy_returns:
  "generate_contract sample_generator sample_utils ''NDA'' instant_call [] busy_process \<noteq> None"
  by code_simp

lemma ana_busy_returns:
  "analyze_contract_comprehensive sample_analyzer instant_call '''' busy_process \<noteq> None"
  by code_simp

lemma wait_sample:
  "wait_if_needed 1 started_process
     = Some (started_process\<lparr>heap := (heap started_process)(1 \<mapsto> limiter_15 [0]),
                             clock := 0, trace := [Acquired 1]\<rparr>)"
  by (subst wait_if_needed_def, subst acquire.simps)
     (simp add: started_process_def limiter_15_def purge_def)

lemma combine_without_ai:
  "rule_based_analysis (combine_analyses None rep t now)
     = rule_based_analysis (combine_analyses (Some a) rep t now)
   \<and> rule_based_analysis.risks_identified (rule_based_analysis (combine_analyses None rep t now))
       = rule_report.risks_identified rep
   \<and> rule_based_analysis.risks_by_severity (rule_based_analysis (combine_analyses None rep t now))
       = rule_report.risks_by_severity rep
   \<and> detailed_analysis (ai_analysis (combine_analyses None rep t now)) = None
   \<and> combined_report.success (combine_analyses None rep t now)"
  by (simp add: combine_analyses_def Let_def)

text \<open>
  Claim C1, as stated, at a concrete input: the external call of
  \<open>analyze_contract_comprehensive\<close> fails on the empty contract, and the result that is
  returned is the failure record, with \<open>success\<close> false and no rule-based section.
\<close>

theorem external_failure_fails_analysis:
  "map_option (rule_section \<circ> fst)
     (analyze_contract_comprehensive sample_analyzer failing_call '''' started_process) = Some None
   \<and> map_option (succeeded \<circ> fst)
       (analyze_contract_comprehensive sample_analyzer failing_call '''' started_process) = Some False"
  by code_simp

text \<open>
  Claim C1, amended: given an absent AI text, \<open>_combine_analyses\<close> raises nothing and its
  report holds the full rule-based section, the same as with an AI text, with the
  \<open>detailed_analysis\<close> of the AI section absent; \<open>analyze_contract_rules\<close> itself always
  succeeds. But \<open>analyze_contract_comprehensive\<close> has no degraded mode: when the external
  call fails, it returns the failure record (\<open>success\<close> false, the error
  \<open>Contract analysis failed: ...\<close>), which holds no rule-based section.
\<close>

theorem combine_degrades_comprehensive_fails:
  assumes wait: "wait_if_needed (contract_risk_analyzer.rate_limiter self) p = Some p1"
    and fail: "reply x = Inl e"
  shows "map_option fst (analyze_contract_comprehensive self x t p)
           = Some (Failed \<lparr>failure.success = False,
                           failure.error = ''Contract analysis failed: '' @ message e,
                           failure.timestamp = clock p1 + took x\<rparr>)
     \<and> map_option (rule_section \<circ> fst) (analyze_contract_comprehensive self x t p) = Some None
     \<and> rule_based_analysis (combine_analyses None rep t now)
         = rule_based_analysis (combine_analyses (Some a) rep t now)
     \<and> rule_based_analysis.risks_identified (rule_based_analysis (combine_analyses None rep t now))
         = rule_report.risks_identified rep
     \<and> rule_based_analysis.risks_by_severity (rule_based_analysis (combine_analyses None rep t now))
         = rule_report.risks_by_severity rep
     \<and> detailed_analysis (ai_analysis (combine_analyses None rep t now)) = None
     \<and> combined_report.success (combine_analyses None rep t now)
     \<and> rule_report.success (analyze_contract_rules rules now t)"
proof -
  have r: "analyze_contract_comprehensive self x t p
             = Some (Failed \<lparr>failure.success = False,
                              failure.error = ''Contract analysis failed: '' @ message e,
                              failure.timestamp = clock p1 + took x\<rparr>,
                     snd (generate_content ''contract_analysis'' x
                            (track_request ''contract_analysis'' p1)))"
    using wait fail
    by (simp add: analyze_contract_comprehensive_def Let_def generate_content_def track_request_def)
  have failed: "map_option fst (analyze_contract_comprehensive self x t p)
           = Some (Failed \<lparr>failure.success = False,
                           failure.error = ''Contract analysis failed: '' @ message e,
                           failure.timestamp = clock p1 + took x\<rparr>)"
    by (simp add: r)
  have no_section: "map_option (rule_section \<circ> fst) (analyze_contract_comprehensive self x t p) = Some None"
    by (simp add: r)
  have rules_ok: "rule_report.success (analyze_contract_rules rules now t)"
    by (simp add: analyze_contract_rules_def Let_def)
  show ?thesis
    using failed no_section rules_ok combine_without_ai [of rep t now a] by blast
qed

theorem combine_degrades_comprehensive_fails_witness:
  "map_option fst
     (analyze_contract_comprehensive sample_analyzer failing_call sample_contract started_process)
     = Some (Failed \<lparr>failure.success = False,
                     failure.error = ''Contract analysis failed: quota exceeded'',
                     failure.timestamp = 0\<rparr>)"
proof -
  have w: "wait_if_needed (contract_risk_analyzer.rate_limiter sample_analyzer) started_process
             = Some (started_process\<lparr>heap := (heap started_process)(1 \<mapsto> limiter_15 [0]),
                                     clock := 0, trace := [Acquired 1]\<rparr>)"
    using wait_sample by (simp add: sample_analyzer_def)
  have f: "reply failing_call = Inl (Error ''quota exceeded'')"
    by (simp add: failing_call_def)
  show ?thesis
    using combine_degrades_comprehensive_fails [OF w f, of sample_contract]
    by (simp add: failing_call_def)
qed




end
